theory Spec2Isabelle
  imports Main "HOL-Library.AList"
begin

section \<open>Values exchanged with the model and the user\<close>

text \<open>
  Tool-call arguments and resume values arrive as decoded JSON. A Python float is a finite
  binary fraction, kept here as mantissa \<open>m\<close> and exponent \<open>e\<close> with the value
  \<open>m * 2^e\<close>; Python compares floats and integers by their exact values.
\<close>

type_synonym pyfloat = "int \<times> int"

datatype json =
    JNull
  | JBool bool
  | JInt int
  | JFloat pyfloat
  | JStr string
  | JList "json list"
  | JDict "(string \<times> json) list"

type_synonym pydict = "(string \<times> json) list"

text \<open>The exceptions the modelled code can raise.\<close>

datatype error = IndexError | TypeError | ValueError | ValidationError

text \<open>Python truth value of a decoded JSON value.\<close>

fun truthy :: "json \<Rightarrow> bool" where
  "truthy JNull = False"
| "truthy (JBool b) = b"
| "truthy (JInt i) = (i \<noteq> 0)"
| "truthy (JFloat f) = (fst f \<noteq> 0)"
| "truthy (JStr s) = (s \<noteq> [])"
| "truthy (JList xs) = (xs \<noteq> [])"
| "truthy (JDict d) = (d \<noteq> [])"

text \<open>\<open>d.get(k, default)\<close> on a dict with string keys.\<close>

definition dict_get :: "pydict \<Rightarrow> string \<Rightarrow> json \<Rightarrow> json" where
  "dict_get d k dflt = (case map_of d k of Some v \<Rightarrow> v | None \<Rightarrow> dflt)"

text \<open>Numbers as Python compares them: a bool is the integer 0 or 1, and two numbers are
  compared by value whatever their types.\<close>

fun num_of :: "json \<Rightarrow> pyfloat option" where
  "num_of (JBool b) = Some (if b then 1 else 0, 0)"
| "num_of (JInt i) = Some (i, 0)"
| "num_of (JFloat f) = Some f"
| "num_of _ = None"

definition scaled :: "pyfloat \<Rightarrow> int \<Rightarrow> int" where
  "scaled f e = fst f * 2 ^ nat (snd f - e)"

definition num_less :: "pyfloat \<Rightarrow> pyfloat \<Rightarrow> bool" where
  "num_less x y = (let e = min (snd x) (snd y) in scaled x e < scaled y e)"

definition num_eq :: "pyfloat \<Rightarrow> pyfloat \<Rightarrow> bool" where
  "num_eq x y = (let e = min (snd x) (snd y) in scaled x e = scaled y e)"

text \<open>
  A dict that the code updates in place. Its keys are the hashable values (everything but
  lists and dicts); two keys are the same key when they are equal in Python, so \<open>1\<close>,
  \<open>1.0\<close> and \<open>True\<close> are one key. \<open>d[k] = v\<close> replaces the value where the key stands, keeping
  the key that is already there, or adds the pair at the end. A dict decoded from JSON, or
  dumped from a schema object, has string keys only.
\<close>

type_synonym report_dict = "(json \<times> json) list"

fun hashable :: "json \<Rightarrow> bool" where
  "hashable (JList xs) = False"
| "hashable (JDict d) = False"
| "hashable _ = True"

definition key_eq :: "json \<Rightarrow> json \<Rightarrow> bool" where
  "key_eq a b =
     (case (num_of a, num_of b) of
        (Some x, Some y) \<Rightarrow> num_eq x y
      | (None, None) \<Rightarrow> a = b
      | _ \<Rightarrow> False)"

fun py_setitem :: "json \<Rightarrow> json \<Rightarrow> report_dict \<Rightarrow> report_dict" where
  "py_setitem k v [] = [(k, v)]"
| "py_setitem k v ((k', v') # rest) =
     (if key_eq k' k then (k', v) # rest else (k', v') # py_setitem k v rest)"

text \<open>\<open>xs[k]\<close> for a Python list and a Python integer: negative indices count from the
  end, anything outside \<open>-len \<le> k < len\<close> raises IndexError.\<close>

definition py_index :: "'a list \<Rightarrow> int \<Rightarrow> error + 'a" where
  "py_index xs k =
     (if 0 \<le> k \<and> k < int (length xs) then Inr (xs ! nat k)
      else if - int (length xs) \<le> k \<and> k < 0 then Inr (xs ! nat (int (length xs) + k))
      else Inl IndexError)"

text \<open>\<open>str(n)\<close> for a non-negative integer and for an integer.\<close>

definition digit_char :: "nat \<Rightarrow> char" where
  "digit_char d = ''0123456789'' ! d"

fun str_nat :: "nat \<Rightarrow> string" where
  "str_nat n = (if n < 10 then [digit_char n] else str_nat (n div 10) @ [digit_char (n mod 10)])"

declare str_nat.simps [simp del]

definition str_int :: "int \<Rightarrow> string" where
  "str_int i = (if i < 0 then CHR ''-'' # str_nat (nat (- i)) else str_nat (nat i))"


section \<open>Messages and the router after the turn step (nodes.py)\<close>

record tool_call =
  tc_name :: string
  tc_id :: string
  tc_args :: pydict

text \<open>Only assistant messages have a \<open>tool_calls\<close> attribute; \<open>None\<close> stands for a message
  without that attribute.\<close>

record message =
  content :: string
  tool_calls :: "tool_call list option"

record tool_message =
  tm_content :: string
  tm_tool_call_id :: string
  tm_name :: string

text \<open>\<open>should_continue\<close>: \<open>messages[-1]\<close> raises IndexError on an empty history.\<close>

definition should_continue :: "message list \<Rightarrow> error + string" where
  "should_continue messages =
     (if messages = [] then Inl IndexError
      else
        let last_message = last messages in
        (case tool_calls last_message of
           Some tcs \<Rightarrow>
             if tcs \<noteq> [] then
               let tool_names = set (map tc_name tcs) in
               if ''deep_research'' \<in> tool_names then Inr ''deep_research''
               else if ''save_report'' \<in> tool_names then Inr ''save_confirm''
               else Inr ''tools''
             else Inr ''end''
         | None \<Rightarrow> Inr ''end''))"


section \<open>Schemas\<close>

text \<open>
  Modelled from the spec: the module chat/schemas.py (HITLOption, HITLPayload,
  ResearchReport, ResearchFinding, SearchResult, ExplorerInstruction) is not part of the
  sources at hand. The records below follow the field lists of the specification's data
  model and the defaults visible at the constructors' call sites: an option has
  \<open>description = ""\<close> and \<open>selected = False\<close> unless given, a payload has
  \<open>options = None\<close> and \<open>report = None\<close> unless given, a search result has empty
  strings and score 0.0 unless given, a report needs title and summary and defaults its
  lists to empty and its methodology to the empty string.
\<close>

record hitl_option =
  opt_id :: string
  opt_label :: string
  opt_description :: string
  opt_selected :: bool

record research_finding =
  insight :: string
  evidence :: string
  finding_sources :: "string list"

record research_report =
  title :: string
  summary :: string
  key_findings :: "research_finding list"
  sources :: "string list"
  tags :: "string list"
  methodology :: string

record hitl_payload =
  hitl_type :: string
  payload_title :: string
  payload_message :: string
  options :: "hitl_option list option"
  report :: "research_report option"

record explorer_instruction =
  query :: string
  search_focus :: string
  context_str :: string

definition HITLOption :: "string \<Rightarrow> string \<Rightarrow> string \<Rightarrow> bool \<Rightarrow> hitl_option" where
  "HITLOption i l d s = \<lparr>opt_id = i, opt_label = l, opt_description = d, opt_selected = s\<rparr>"

text \<open>\<open>model_dump\<close> of a report: the dict with the six fields.\<close>

definition dump_strs :: "string list \<Rightarrow> json" where
  "dump_strs xs = JList (map JStr xs)"

definition dump_finding :: "research_finding \<Rightarrow> json" where
  "dump_finding f = JDict [(''insight'', JStr (insight f)), (''evidence'', JStr (evidence f)),
                           (''sources'', dump_strs (finding_sources f))]"

definition dump_report :: "research_report \<Rightarrow> report_dict" where
  "dump_report r =
     [(JStr ''title'', JStr (title r)), (JStr ''summary'', JStr (summary r)),
      (JStr ''key_findings'', JList (map dump_finding (key_findings r))),
      (JStr ''sources'', dump_strs (sources r)), (JStr ''tags'', dump_strs (tags r)),
      (JStr ''methodology'', JStr (methodology r))]"

text \<open>\<open>ResearchReport(**d)\<close>: a key that is no string raises TypeError (keywords must be
  strings); then the dict is validated, raising ValidationError on a missing required field
  or a field of the wrong type; keys that are no field are ignored.\<close>

fun string_keys :: "report_dict \<Rightarrow> pydict option" where
  "string_keys [] = Some []"
| "string_keys ((JStr k, v) # rest) = map_option (Cons (k, v)) (string_keys rest)"
| "string_keys _ = None"

fun as_str :: "json \<Rightarrow> error + string" where
  "as_str (JStr s) = Inr s"
| "as_str _ = Inl ValidationError"

fun as_strs :: "json list \<Rightarrow> error + string list" where
  "as_strs [] = Inr []"
| "as_strs (x # xs) =
     (case as_str x of Inl e \<Rightarrow> Inl e
      | Inr s \<Rightarrow> (case as_strs xs of Inl e \<Rightarrow> Inl e | Inr ss \<Rightarrow> Inr (s # ss)))"

fun as_str_list :: "json \<Rightarrow> error + string list" where
  "as_str_list (JList xs) = as_strs xs"
| "as_str_list _ = Inl ValidationError"

definition field_str :: "pydict \<Rightarrow> string \<Rightarrow> string option \<Rightarrow> error + string" where
  "field_str d k dflt =
     (case map_of d k of
        Some v \<Rightarrow> as_str v
      | None \<Rightarrow> (case dflt of Some s \<Rightarrow> Inr s | None \<Rightarrow> Inl ValidationError))"

definition field_strs :: "pydict \<Rightarrow> string \<Rightarrow> error + string list" where
  "field_strs d k = (case map_of d k of Some v \<Rightarrow> as_str_list v | None \<Rightarrow> Inr [])"

fun parse_finding :: "json \<Rightarrow> error + research_finding" where
  "parse_finding (JDict d) =
     (case field_str d ''insight'' None of Inl e \<Rightarrow> Inl e | Inr i \<Rightarrow>
       (case field_str d ''evidence'' None of Inl e \<Rightarrow> Inl e | Inr ev \<Rightarrow>
         (case field_strs d ''sources'' of Inl e \<Rightarrow> Inl e | Inr ss \<Rightarrow>
            Inr \<lparr>insight = i, evidence = ev, finding_sources = ss\<rparr>)))"
| "parse_finding _ = Inl ValidationError"

fun parse_findings :: "json list \<Rightarrow> error + research_finding list" where
  "parse_findings [] = Inr []"
| "parse_findings (x # xs) =
     (case parse_finding x of Inl e \<Rightarrow> Inl e
      | Inr f \<Rightarrow> (case parse_findings xs of Inl e \<Rightarrow> Inl e | Inr fs \<Rightarrow> Inr (f # fs)))"

definition field_findings :: "pydict \<Rightarrow> error + research_finding list" where
  "field_findings d =
     (case map_of d ''key_findings'' of
        Some (JList xs) \<Rightarrow> parse_findings xs
      | Some _ \<Rightarrow> Inl ValidationError
      | None \<Rightarrow> Inr [])"

definition validate_report :: "pydict \<Rightarrow> error + research_report" where
  "validate_report d =
     (case field_str d ''title'' None of Inl e \<Rightarrow> Inl e | Inr t \<Rightarrow>
       (case field_str d ''summary'' None of Inl e \<Rightarrow> Inl e | Inr s \<Rightarrow>
         (case field_findings d of Inl e \<Rightarrow> Inl e | Inr kf \<Rightarrow>
           (case field_strs d ''sources'' of Inl e \<Rightarrow> Inl e | Inr so \<Rightarrow>
             (case field_strs d ''tags'' of Inl e \<Rightarrow> Inl e | Inr tg \<Rightarrow>
               (case field_str d ''methodology'' (Some []) of Inl e \<Rightarrow> Inl e | Inr m \<Rightarrow>
                  Inr \<lparr>title = t, summary = s, key_findings = kf, sources = so, tags = tg,
                       methodology = m\<rparr>))))))"

definition ResearchReport :: "report_dict \<Rightarrow> error + research_report" where
  "ResearchReport d =
     (case string_keys d of None \<Rightarrow> Inl TypeError | Some sd \<Rightarrow> validate_report sd)"

text \<open>\<open>SearchResult(url, title, content, score).model_dump()\<close>.\<close>

definition SearchResult :: "string \<Rightarrow> string \<Rightarrow> string \<Rightarrow> pyfloat \<Rightarrow> pydict" where
  "SearchResult u t c s =
     [(''url'', JStr u), (''title'', JStr t), (''content'', JStr c), (''score'', JFloat s)]"

text \<open>A node that reaches \<open>interrupt\<close> without a resume value suspends with its payload;
  with a resume value the node runs again from its start and \<open>interrupt\<close> returns that
  value.\<close>

datatype 'a outcome = Suspended hitl_payload | Done 'a


section \<open>The save-confirmation step (nodes.py)\<close>

record agent_state =
  messages :: "message list"
  research_reports :: "report_dict list"

record save_update =
  new_messages :: "tool_message list"
  pending_save :: "report_dict option"

text \<open>The loops over the last message's tool calls: the first call named \<open>save_report\<close>.\<close>

definition last_tool_calls :: "message list \<Rightarrow> tool_call list option" where
  "last_tool_calls ms = (if ms = [] then None else tool_calls (last ms))"

definition find_save_call :: "message list \<Rightarrow> tool_call option" where
  "find_save_call ms =
     (case last_tool_calls ms of
        None \<Rightarrow> None
      | Some tcs \<Rightarrow> find (\<lambda>tc. tc_name tc = ''save_report'') tcs)"

definition requested_index :: "message list \<Rightarrow> json" where
  "requested_index ms =
     (case find_save_call ms of
        None \<Rightarrow> JInt 0
      | Some tc \<Rightarrow> dict_get (tc_args tc) ''report_index'' (JInt 0))"

definition save_call_id :: "message list \<Rightarrow> string" where
  "save_call_id ms = (case find_save_call ms of None \<Rightarrow> [] | Some tc \<Rightarrow> tc_id tc)"

text \<open>
  Lines 167-168: \<open>idx = min(report_index, len(reports) - 1)\<close> and \<open>reports[-(idx + 1)]\<close>.
  \<open>min(a, b)\<close> is \<open>b\<close> when \<open>b < a\<close> and \<open>a\<close> otherwise. A bool is an int in Python. A
  float above the last index is replaced by that index; any other float comes out of
  \<open>min\<close> as it is and is no list index (TypeError). Every other value cannot be compared
  with an int (TypeError).
\<close>

fun clamp_index :: "json \<Rightarrow> int \<Rightarrow> error + int" where
  "clamp_index (JInt i) last_index = Inr (if last_index < i then last_index else i)"
| "clamp_index (JBool b) last_index =
     Inr (if last_index < (if b then 1 else 0) then last_index else (if b then 1 else 0))"
| "clamp_index (JFloat f) last_index =
     (if num_less (last_index, 0) f then Inr last_index else Inl TypeError)"
| "clamp_index _ last_index = Inl TypeError"

definition select_report :: "report_dict list \<Rightarrow> json \<Rightarrow> error + report_dict" where
  "select_report reports report_index =
     (case clamp_index report_index (int (length reports) - 1) of
        Inl e \<Rightarrow> Inl e
      | Inr idx \<Rightarrow> py_index reports (- (idx + 1)))"

definition confirm_options :: "hitl_option list" where
  "confirm_options =
     [HITLOption ''save'' ''Save'' ''Save report to database'' False,
      HITLOption ''cancel'' ''Cancel'' ''Don't save'' False]"

text \<open>\<open>str(user_response)\<close> of a value that is no dict equals \<open>"save"\<close> only for the
  string \<open>"save"\<close> itself.\<close>

definition confirm_action_is_save :: "json \<Rightarrow> bool" where
  "confirm_action_is_save user_response =
     (case user_response of
        JDict d \<Rightarrow> dict_get d ''action'' (JStr ''cancel'') = JStr ''save''
      | v \<Rightarrow> v = JStr ''save'')"

definition save_confirm_node :: "agent_state \<Rightarrow> json option \<Rightarrow> error + save_update outcome" where
  "save_confirm_node state resume =
     (let reports = research_reports state; ms = messages state;
          report_index = requested_index ms in
      if reports = [] then
        Inr (Done \<lparr>new_messages =
                     [\<lparr>tm_content = ''No research reports available to save. Run a deep research first.'',
                       tm_tool_call_id = save_call_id ms, tm_name = ''save_report''\<rparr>],
                   pending_save = None\<rparr>)
      else
        case select_report reports report_index of
          Inl e \<Rightarrow> Inl e
        | Inr rep \<Rightarrow>
            (case ResearchReport rep of
               Inl e \<Rightarrow> Inl e
             | Inr obj \<Rightarrow>
                 let payload = \<lparr>hitl_type = ''confirm'', payload_title = ''Save Research Report'',
                       payload_message = ''Do you want to save this research report to the database?'',
                       options = Some confirm_options, report = Some obj\<rparr> in
                 (case resume of
                    None \<Rightarrow> Inr (Suspended payload)
                  | Some user_response \<Rightarrow>
                      if confirm_action_is_save user_response then
                        Inr (Done \<lparr>new_messages = [], pending_save = Some rep\<rparr>)
                      else
                        Inr (Done \<lparr>new_messages =
                                     [\<lparr>tm_content = ''Report save cancelled by user.'',
                                       tm_tool_call_id = save_call_id ms,
                                       tm_name = ''save_report''\<rparr>],
                                   pending_save = None\<rparr>))))"


section \<open>The research sub-pipeline (research_graph.py)\<close>

text \<open>The state of the subgraph. A key that may be absent (read with \<open>state.get\<close>) is an
  option; \<open>report\<close> is \<open>None\<close> when absent or null.\<close>

record research_state =
  topic :: "string option"
  depth :: "string option"
  clarified_topics :: "string list option"
  explorer_instructions :: "explorer_instruction list option"
  search_results :: "pydict list"
  state_report :: "report_dict option"
  status :: "string option"

text \<open>What a node returns: the keys it sets. The graph merges it into the state, replacing
  each returned key except \<open>search_results\<close>, which is concatenated.\<close>

record research_update =
  set_clarified_topics :: "string list option"
  set_explorer_instructions :: "explorer_instruction list option"
  add_search_results :: "pydict list"
  set_report :: "report_dict option"
  set_status :: "string option"

definition no_update :: research_update where
  "no_update = \<lparr>set_clarified_topics = None, set_explorer_instructions = None,
                 add_search_results = [], set_report = None, set_status = None\<rparr>"

definition merge_update :: "research_state \<Rightarrow> research_update \<Rightarrow> research_state" where
  "merge_update st u =
     st\<lparr>clarified_topics :=
           (case set_clarified_topics u of None \<Rightarrow> clarified_topics st | Some v \<Rightarrow> Some v),
        explorer_instructions :=
           (case set_explorer_instructions u of None \<Rightarrow> explorer_instructions st
            | Some v \<Rightarrow> Some v),
        search_results := search_results st @ add_search_results u,
        state_report := (case set_report u of None \<Rightarrow> state_report st | Some v \<Rightarrow> Some v),
        status := (case set_status u of None \<Rightarrow> status st | Some v \<Rightarrow> Some v)\<rparr>"

definition DEPTH_MAP :: "string \<rightharpoonup> nat" where
  "DEPTH_MAP = [''quick'' \<mapsto> 3, ''standard'' \<mapsto> 5, ''deep'' \<mapsto> 8]"

definition get_or :: "'a option \<Rightarrow> 'a \<Rightarrow> 'a" where
  "get_or v dflt = (case v of Some x \<Rightarrow> x | None \<Rightarrow> dflt)"

subsection \<open>clarify\<close>

text \<open>\<open>enumerate(subtopics)\<close> and the option list built from it.\<close>

definition enumerate_from0 :: "'a list \<Rightarrow> (nat \<times> 'a) list" where
  "enumerate_from0 xs = zip [0..<length xs] xs"

definition clarify_options :: "string list \<Rightarrow> hitl_option list" where
  "clarify_options subtopics =
     map (\<lambda>(i, t). HITLOption (''topic_'' @ str_nat i) t [] True) (enumerate_from0 subtopics)"

definition clarify_payload :: "string \<Rightarrow> string list \<Rightarrow> hitl_payload" where
  "clarify_payload tp subtopics =
     \<lparr>hitl_type = ''checkbox'', payload_title = ''Select Research Topics'',
      payload_message = ''The following sub-topics were identified for '' @ [CHR 0x27] @ tp @
        [CHR 0x27] @ ''. Select the ones you'd like to research:'',
      options = Some (clarify_options subtopics), report = None\<rparr>"

text \<open>The loop of lines 105-108: \<open>opt.id in selected_ids\<close> compares the id, a string, with
  each element of the list.\<close>

fun collect_selected :: "json list \<Rightarrow> hitl_option list \<Rightarrow> string list \<Rightarrow> string list" where
  "collect_selected selected_ids [] acc = acc"
| "collect_selected selected_ids (opt # opts) acc =
     collect_selected selected_ids opts
       (if JStr (opt_id opt) \<in> set selected_ids then acc @ [opt_label opt] else acc)"

text \<open>\<open>clarify_node\<close>; \<open>subtopics\<close> is the list the language model returned.\<close>

definition clarify_node ::
  "string list \<Rightarrow> research_state \<Rightarrow> json option \<Rightarrow> research_update outcome" where
  "clarify_node subtopics state resume =
     (let tp = get_or (topic state) [];
          opts = clarify_options subtopics;
          payload = clarify_payload tp subtopics in
      case resume of
        None \<Rightarrow> Suspended payload
      | Some user_response \<Rightarrow>
          let selected_ids = (case user_response of JList ids \<Rightarrow> ids | _ \<Rightarrow> []);
              selected_topics = collect_selected selected_ids opts [];
              selected_topics' = (if selected_topics = [] then subtopics else selected_topics)
          in Done (no_update\<lparr>set_clarified_topics := Some selected_topics',
                              set_status := Some ''clarified''\<rparr>))"

subsection \<open>orchestrate\<close>

text \<open>\<open>orchestrate_node\<close>; \<open>llm_instructions\<close> is the instruction list the language model
  returned for the prompt, which the node cuts with \<open>[:num_explorers]\<close>.\<close>

definition num_explorers :: "research_state \<Rightarrow> nat" where
  "num_explorers state =
     (let topics = get_or (clarified_topics state) [];
          d = get_or (depth state) ''standard''
      in min (length topics) (get_or (DEPTH_MAP d) 5))"

definition orchestrate_node ::
  "explorer_instruction list \<Rightarrow> research_state \<Rightarrow> research_update" where
  "orchestrate_node llm_instructions state =
     no_update\<lparr>set_explorer_instructions := Some (take (num_explorers state) llm_instructions),
               set_status := Some ''orchestrated''\<rparr>"

subsection \<open>explorer\<close>

text \<open>What the web search hands back: a list of records, a string, or something else. A
  record's fields may be missing. \<open>BadItem msg\<close> is a list element whose conversion to a
  search result raises an exception with text \<open>msg\<close>.\<close>

datatype raw_item =
    Item "string option" "string option" "string option" "pyfloat option"
  | BadItem string

datatype raw_results = RawList "raw_item list" | RawStr string | RawOther

text \<open>The loop of lines 176-184, stopping at the first element that raises.\<close>

fun convert_items :: "string \<Rightarrow> raw_item list \<Rightarrow> string + pydict list" where
  "convert_items q [] = Inr []"
| "convert_items q (Item u t c s # rs) =
     (case convert_items q rs of
        Inl e \<Rightarrow> Inl e
      | Inr ds \<Rightarrow> Inr (SearchResult (get_or u []) (get_or t q) (get_or c []) (get_or s (0, 0)) # ds))"
| "convert_items q (BadItem msg # rs) = Inl msg"

text \<open>\<open>explorer_node\<close>; \<open>search q\<close> is \<open>Inl msg\<close> when importing or invoking the search
  raises an exception with text \<open>msg\<close>.\<close>

record explorer_state =
  ex_query :: "string option"
  ex_search_focus :: "string option"

definition explorer_node ::
  "(string \<Rightarrow> string + raw_results) \<Rightarrow> explorer_state \<Rightarrow> pydict list" where
  "explorer_node search state =
     (let q = get_or (ex_query state) [] in
      case (case search q of
              Inl e \<Rightarrow> Inl e
            | Inr (RawList rs) \<Rightarrow> convert_items q rs
            | Inr (RawStr s) \<Rightarrow> Inr [SearchResult [] q s (0, 0)]
            | Inr RawOther \<Rightarrow> Inr [])
      of Inr results \<Rightarrow> results
       | Inl e \<Rightarrow> [SearchResult [] q (''Search error: '' @ e) (0, 0)])"

subsection \<open>synthesize and review\<close>

text \<open>\<open>synthesize_node\<close>; \<open>llm_report\<close> is the report object the language model returned.\<close>

definition synthesize_node :: "research_report \<Rightarrow> research_state \<Rightarrow> research_update" where
  "synthesize_node llm_report state =
     no_update\<lparr>set_report := Some (dump_report llm_report), set_status := Some ''synthesized''\<rparr>"

definition review_options :: "hitl_option list" where
  "review_options =
     [HITLOption ''approve'' ''Approve'' ''Accept this report'' False,
      HITLOption ''edit'' ''Edit'' ''Modify the report'' False,
      HITLOption ''redo'' ''Redo'' ''Re-run the research'' False]"

text \<open>A dict is true when it is not empty.\<close>

definition report_truthy :: "report_dict option \<Rightarrow> bool" where
  "report_truthy r = (case r of None \<Rightarrow> False | Some d \<Rightarrow> d \<noteq> [])"

definition review_payload :: "report_dict option \<Rightarrow> error + hitl_payload" where
  "review_payload r =
     (case (if report_truthy r then map_sum id Some (ResearchReport (the r)) else Inr None) of
        Inl e \<Rightarrow> Inl e
      | Inr obj \<Rightarrow>
          Inr \<lparr>hitl_type = ''review'', payload_title = ''Review Research Report'',
               payload_message = ''Please review the research report below. You can approve it, edit it, or request a redo.'',
               options = Some review_options, report = obj\<rparr>)"

text \<open>\<open>report.update(edits)\<close> for a dict of edits: each key is replaced where it stands or
  added at the end.\<close>

definition dict_update :: "report_dict \<Rightarrow> pydict \<Rightarrow> report_dict" where
  "dict_update d edits = foldl (\<lambda>acc (k, v). py_setitem (JStr k) v acc) d edits"

text \<open>
  \<open>report.update(edits)\<close> for edits that are no dict: the value is iterated, and each
  element must itself be iterable with exactly two items, the key and the value. An
  element that cannot be iterated raises TypeError, one with another number of items
  raises ValueError, an unhashable key raises TypeError. The items of a string are its
  characters; the items of a dict are its keys.
\<close>

fun pair_of :: "json \<Rightarrow> error + (json \<times> json)" where
  "pair_of (JList xs) =
     (case xs of
        [k, v] \<Rightarrow> if hashable k then Inr (k, v) else Inl TypeError
      | _ \<Rightarrow> Inl ValueError)"
| "pair_of (JStr s) = (case s of [a, b] \<Rightarrow> Inr (JStr [a], JStr [b]) | _ \<Rightarrow> Inl ValueError)"
| "pair_of (JDict d) =
     (case map fst d of [k1, k2] \<Rightarrow> Inr (JStr k1, JStr k2) | _ \<Rightarrow> Inl ValueError)"
| "pair_of _ = Inl TypeError"

fun update_pairs :: "report_dict \<Rightarrow> json list \<Rightarrow> error + report_dict" where
  "update_pairs d [] = Inr d"
| "update_pairs d (x # xs) =
     (case pair_of x of
        Inl e \<Rightarrow> Inl e
      | Inr (k, v) \<Rightarrow> update_pairs (py_setitem k v d) xs)"

fun py_update :: "report_dict \<Rightarrow> json \<Rightarrow> error + report_dict" where
  "py_update d (JDict edits) = Inr (dict_update d edits)"
| "py_update d (JList xs) = update_pairs d xs"
| "py_update d (JStr s) = update_pairs d (map (\<lambda>c. JStr [c]) s)"
| "py_update d _ = Inl TypeError"

text \<open>\<open>review_node\<close>.\<close>

definition review_node ::
  "research_state \<Rightarrow> json option \<Rightarrow> error + research_update outcome" where
  "review_node state resume =
     (let rep = state_report state in
      case review_payload rep of
        Inl e \<Rightarrow> Inl e
      | Inr payload \<Rightarrow>
          (case resume of
             None \<Rightarrow> Inr (Suspended payload)
           | Some user_response \<Rightarrow>
               let action = (case user_response of
                               JDict d \<Rightarrow> dict_get d ''action'' (JStr ''approve'')
                             | _ \<Rightarrow> JStr ''approve'');
                   edits = (case user_response of
                              JDict d \<Rightarrow> dict_get d ''edits'' (JDict [])
                            | _ \<Rightarrow> JDict [])
               in
               if action = JStr ''edit'' \<and> report_truthy rep \<and> truthy edits then
                 (case py_update (the rep) edits of
                    Inl e \<Rightarrow> Inl e
                  | Inr rep' \<Rightarrow>
                      Inr (Done (no_update\<lparr>set_report := Some rep',
                                           set_status := Some ''approved''\<rparr>)))
               else if action = JStr ''redo'' then
                 Inr (Done (no_update\<lparr>set_status := Some ''redo''\<rparr>))
               else Inr (Done (no_update\<lparr>set_status := Some ''approved''\<rparr>))))"

definition END :: string where
  "END = ''__end__''"

definition should_continue_review :: "research_state \<Rightarrow> string" where
  "should_continue_review state = (if status state = Some ''redo'' then ''orchestrate'' else END)"

text \<open>The edges of \<open>build_research_subgraph\<close>: the node entered after a node, given the
  router's answer where the edge is conditional.\<close>

definition review_edges :: "string \<rightharpoonup> string" where
  "review_edges = [''orchestrate'' \<mapsto> ''orchestrate'', END \<mapsto> END]"

definition after_review :: "research_state \<Rightarrow> string option" where
  "after_review state = review_edges (should_continue_review state)"


section \<open>The calculator tool (tools.py)\<close>

text \<open>
  \<open>calculator\<close> checks every character against the whitelist and only then calls Python's
  \<open>eval\<close> and \<open>str\<close>. Evaluating a string can do anything the interpreter can do, so the
  builtin is a parameter that acts on a world \<open>'w\<close> (the state of the process and all it can
  reach): \<open>str_eval s w\<close> is the outcome of \<open>str(eval(s))\<close> started in \<open>w\<close> together with the
  world it leaves, the outcome being \<open>Inr\<close> of the string or \<open>Inl msg\<close> when an exception
  \<open>e\<close> with \<open>str(e) = msg\<close> is raised. The tool returns its string and the world it leaves.
  Every exception that evaluating a string of whitelisted characters can raise derives
  from \<open>Exception\<close> and is caught by the handler.
\<close>

definition allowed_chars :: "char set" where
  "allowed_chars = set ''0123456789+-*/.(). ''"

definition calculator ::
  "(string \<Rightarrow> 'w \<Rightarrow> (string + string) \<times> 'w) \<Rightarrow> string \<Rightarrow> 'w \<Rightarrow> string \<times> 'w" where
  "calculator str_eval expression w =
     (if \<not> list_all (\<lambda>c. c \<in> allowed_chars) expression then
        (''Error: Invalid characters in expression. Only basic arithmetic is supported.'', w)
      else
        case str_eval expression w of
          (Inr result, w') \<Rightarrow> (result, w')
        | (Inl e, w') \<Rightarrow> (''Error evaluating expression: '' @ e, w'))"

subsection \<open>Python's evaluation of integer arithmetic\<close>

text \<open>
  What \<open>eval\<close> followed by \<open>str\<close> returns on the part of Python's expression language made
  of decimal integer literals, unary and binary \<open>+\<close> and \<open>-\<close>, \<open>*\<close>, parentheses, and
  \<open>/\<close> with a zero divisor (which raises ZeroDivisionError with the text "division by
  zero"). \<open>None\<close> marks an input outside this part: floats (a literal with a dot, a true
  division that succeeds), \<open>**\<close> and \<open>//\<close>, literals with a leading zero, anything that
  does not parse as the grammar below, and inputs longer than 100 characters (where the
  interpreter's limits on nesting and on digits begin to matter).
\<close>

datatype token = TNum nat | TPlus | TMinus | TStar | TSlash | TLParen | TRParen

definition is_digit :: "char \<Rightarrow> bool" where
  "is_digit c = (c \<in> set ''0123456789'')"

definition digit_val :: "char \<Rightarrow> nat" where
  "digit_val c = of_char c - 48"

definition flush :: "string \<Rightarrow> token list option" where
  "flush cur =
     (if cur = [] then Some []
      else if 1 < length cur \<and> hd cur = CHR ''0'' then None
      else Some [TNum (foldl (\<lambda>n c. 10 * n + digit_val c) 0 cur)])"

definition symbol :: "char \<Rightarrow> string \<Rightarrow> token list option" where
  "symbol c rest =
     (if c = CHR '' '' then Some []
      else if c = CHR ''+'' then Some [TPlus]
      else if c = CHR ''-'' then Some [TMinus]
      else if c = CHR ''('' then Some [TLParen]
      else if c = CHR '')'' then Some [TRParen]
      else if c = CHR ''*'' \<and> (rest = [] \<or> hd rest \<noteq> CHR ''*'') then Some [TStar]
      else if c = CHR ''/'' \<and> (rest = [] \<or> hd rest \<noteq> CHR ''/'') then Some [TSlash]
      else None)"

fun lex :: "string \<Rightarrow> string \<Rightarrow> token list option" where
  "lex cur [] = flush cur"
| "lex cur (c # cs) =
     (if is_digit c then lex (cur @ [c]) cs
      else
        (case flush cur of None \<Rightarrow> None | Some a \<Rightarrow>
          (case symbol c cs of None \<Rightarrow> None | Some b \<Rightarrow>
            (case lex [] cs of None \<Rightarrow> None | Some r \<Rightarrow> Some (a @ b @ r)))))"

text \<open>The parser follows the grammar
  \<open>sum ::= term (('+' | '-') term)*\<close>, \<open>term ::= factor (('*' | '/') factor)*\<close>,
  \<open>factor ::= ('+' | '-') factor | NUMBER | '(' sum ')'\<close>; the first argument bounds the
  depth of the calls.\<close>

datatype pyexpr =
    Num int
  | UPlus pyexpr
  | UMinus pyexpr
  | Add pyexpr pyexpr
  | Sub pyexpr pyexpr
  | Mul pyexpr pyexpr
  | TrueDiv pyexpr pyexpr

fun parse_sum :: "nat \<Rightarrow> token list \<Rightarrow> (pyexpr \<times> token list) option"
  and sum_rest :: "nat \<Rightarrow> pyexpr \<Rightarrow> token list \<Rightarrow> (pyexpr \<times> token list) option"
  and parse_term :: "nat \<Rightarrow> token list \<Rightarrow> (pyexpr \<times> token list) option"
  and term_rest :: "nat \<Rightarrow> pyexpr \<Rightarrow> token list \<Rightarrow> (pyexpr \<times> token list) option"
  and parse_factor :: "nat \<Rightarrow> token list \<Rightarrow> (pyexpr \<times> token list) option"
where
  "parse_sum 0 ts = None"
| "parse_sum (Suc n) ts =
     (case parse_term n ts of None \<Rightarrow> None | Some (e, r) \<Rightarrow> sum_rest n e r)"
| "sum_rest 0 e ts = None"
| "sum_rest (Suc n) e (TPlus # ts) =
     (case parse_term n ts of None \<Rightarrow> None | Some (e', r) \<Rightarrow> sum_rest n (Add e e') r)"
| "sum_rest (Suc n) e (TMinus # ts) =
     (case parse_term n ts of None \<Rightarrow> None | Some (e', r) \<Rightarrow> sum_rest n (Sub e e') r)"
| "sum_rest (Suc n) e ts = Some (e, ts)"
| "parse_term 0 ts = None"
| "parse_term (Suc n) ts =
     (case parse_factor n ts of None \<Rightarrow> None | Some (e, r) \<Rightarrow> term_rest n e r)"
| "term_rest 0 e ts = None"
| "term_rest (Suc n) e (TStar # ts) =
     (case parse_factor n ts of None \<Rightarrow> None | Some (e', r) \<Rightarrow> term_rest n (Mul e e') r)"
| "term_rest (Suc n) e (TSlash # ts) =
     (case parse_factor n ts of None \<Rightarrow> None | Some (e', r) \<Rightarrow> term_rest n (TrueDiv e e') r)"
| "term_rest (Suc n) e ts = Some (e, ts)"
| "parse_factor 0 ts = None"
| "parse_factor (Suc n) (TPlus # ts) =
     (case parse_factor n ts of None \<Rightarrow> None | Some (e, r) \<Rightarrow> Some (UPlus e, r))"
| "parse_factor (Suc n) (TMinus # ts) =
     (case parse_factor n ts of None \<Rightarrow> None | Some (e, r) \<Rightarrow> Some (UMinus e, r))"
| "parse_factor (Suc n) (TNum k # ts) = Some (Num (int k), ts)"
| "parse_factor (Suc n) (TLParen # ts) =
     (case parse_sum n ts of Some (e, TRParen # r) \<Rightarrow> Some (e, r) | _ \<Rightarrow> None)"
| "parse_factor (Suc n) ts = None"

text \<open>Operands are evaluated left to right; an exception in one of them is the result.\<close>

definition int_op ::
  "(int \<Rightarrow> int \<Rightarrow> (string + int) option) \<Rightarrow> (string + int) option \<Rightarrow> (string + int) option
     \<Rightarrow> (string + int) option" where
  "int_op f a b =
     (case a of None \<Rightarrow> None | Some (Inl m) \<Rightarrow> Some (Inl m)
      | Some (Inr x) \<Rightarrow>
          (case b of None \<Rightarrow> None | Some (Inl m) \<Rightarrow> Some (Inl m) | Some (Inr y) \<Rightarrow> f x y))"

fun eval_expr :: "pyexpr \<Rightarrow> (string + int) option" where
  "eval_expr (Num k) = Some (Inr k)"
| "eval_expr (UPlus e) = eval_expr e"
| "eval_expr (UMinus e) = map_option (map_sum id uminus) (eval_expr e)"
| "eval_expr (Add a b) = int_op (\<lambda>x y. Some (Inr (x + y))) (eval_expr a) (eval_expr b)"
| "eval_expr (Sub a b) = int_op (\<lambda>x y. Some (Inr (x - y))) (eval_expr a) (eval_expr b)"
| "eval_expr (Mul a b) = int_op (\<lambda>x y. Some (Inr (x * y))) (eval_expr a) (eval_expr b)"
| "eval_expr (TrueDiv a b) =
     int_op (\<lambda>x y. if y = 0 then Some (Inl ''division by zero'') else None)
       (eval_expr a) (eval_expr b)"

definition py_eval :: "string \<Rightarrow> (string + string) option" where
  "py_eval s =
     (if 100 < length s then None
      else case lex [] s of
        None \<Rightarrow> None
      | Some ts \<Rightarrow>
          (case parse_sum (5 * length ts + 5) ts of
             Some (e, []) \<Rightarrow> map_option (map_sum id str_int) (eval_expr e)
           | _ \<Rightarrow> None))"

text \<open>An evaluator agrees with Python where the model above is defined.\<close>

definition agrees_with_python :: "(string \<Rightarrow> 'w \<Rightarrow> (string + string) \<times> 'w) \<Rightarrow> bool" where
  "agrees_with_python str_eval = (\<forall>s r w. py_eval s = Some r \<longrightarrow> fst (str_eval s w) = r)"

text \<open>An evaluator whose world is the list of the strings it has evaluated: it appends its
  argument, and returns what Python returns where the model is defined.\<close>

definition logging_eval :: "string \<Rightarrow> string list \<Rightarrow> (string + string) \<times> string list" where
  "logging_eval s w =
     ((case py_eval s of Some r \<Rightarrow> r | None \<Rightarrow> Inl ''unsupported''), w @ [s])"


section \<open>The specification's notions and sample data\<close>

text \<open>The depth-width of the specification: quick 3, standard 5, deep 8, otherwise 5.\<close>

definition depth_width :: "string \<Rightarrow> nat" where
  "depth_width d = (if d = ''quick'' then 3 else if d = ''standard'' then 5
                    else if d = ''deep'' then 8 else 5)"

text \<open>The labels of the suggested options whose ids appear in a resume value that is a list;
  option \<open>i\<close> has the id \<open>topic_i\<close>.\<close>

definition selected_labels :: "json \<Rightarrow> string list \<Rightarrow> string list" where
  "selected_labels v subtopics =
     (case v of
        JList ids \<Rightarrow>
          map snd (filter (\<lambda>(i, t). JStr (''topic_'' @ str_nat i) \<in> set ids)
                          (enumerate_from0 subtopics))
      | _ \<Rightarrow> [])"

text \<open>A review response has the shape \<open>{action, edits?}\<close>: its edits, when present, are a
  JSON object.\<close>

definition edits_ok :: "pydict \<Rightarrow> bool" where
  "edits_ok d =
     (case map_of d ''edits'' of None \<Rightarrow> True | Some (JDict e) \<Rightarrow> True | Some _ \<Rightarrow> False)"

text \<open>The exception, if any, that applying a response's edits to the state's report raises;
  nothing is applied when there is no report or the edits are absent or empty.\<close>

definition update_raises :: "research_state \<Rightarrow> pydict \<Rightarrow> error option" where
  "update_raises st d =
     (let edits = dict_get d ''edits'' (JDict []) in
      if report_truthy (state_report st) \<and> truthy edits then
        (case py_update (the (state_report st)) edits of Inl e \<Rightarrow> Some e | Inr rep' \<Rightarrow> None)
      else None)"

text \<open>The payload validation invariant.\<close>

definition payload_valid :: "hitl_payload \<Rightarrow> bool" where
  "payload_valid p =
     ((hitl_type p = ''checkbox'' \<or> hitl_type p = ''select'' \<longrightarrow> options p \<noteq> None)
      \<and> (hitl_type p = ''review'' \<or> hitl_type p = ''confirm'' \<longrightarrow> report p \<noteq> None))"

text \<open>Concrete states and reports used in the examples below.\<close>

definition one_instruction :: explorer_instruction where
  "one_instruction = \<lparr>query = ''q'', search_focus = ''f'', context_str = []\<rparr>"

definition two_topics_quick :: research_state where
  "two_topics_quick = \<lparr>topic = Some ''t'', depth = Some ''quick'',
     clarified_topics = Some [''a'', ''b''], explorer_instructions = None,
     search_results = [], state_report = None, status = Some ''clarified''\<rparr>"

definition fresh_state :: research_state where
  "fresh_state = \<lparr>topic = Some ''AI safety'', depth = Some ''quick'', clarified_topics = None,
     explorer_instructions = None, search_results = [], state_report = None, status = None\<rparr>"

definition sample_report :: research_report where
  "sample_report = \<lparr>title = ''Draft'', summary = ''S'', key_findings =
      [\<lparr>insight = ''i'', evidence = ''e'', finding_sources = [''u'']\<rparr>],
     sources = [''u''], tags = [''t''], methodology = ''m''\<rparr>"

definition synthesized_state :: research_state where
  "synthesized_state = merge_update fresh_state (synthesize_node sample_report fresh_state)"

definition report_A :: report_dict where
  "report_A = dump_report (sample_report\<lparr>title := ''A''\<rparr>)"

definition report_B :: report_dict where
  "report_B = dump_report (sample_report\<lparr>title := ''B''\<rparr>)"

definition report_C :: report_dict where
  "report_C = dump_report (sample_report\<lparr>title := ''C''\<rparr>)"

text \<open>A conversation holding the reports A, B, C (oldest first) whose last message asks to
  save the report at the given index.\<close>

definition save_request :: "json \<Rightarrow> agent_state" where
  "save_request i =
     \<lparr>messages = [\<lparr>content = [], tool_calls = Some
         [\<lparr>tc_name = ''save_report'', tc_id = ''call_1'', tc_args = [(''report_index'', i)]\<rparr>]\<rparr>],
      research_reports = [report_A, report_B, report_C]\<rparr>"


section \<open>Properties\<close>

subsection \<open>Routing after the turn step\<close>

text \<open>
  C1. For a history whose last message carries tool calls, the router returns the research
  branch if some call is named deep_research, otherwise the save-confirm branch if some call
  is named save_report, otherwise the tool-execution branch; a last message without tool
  calls (none, or an empty list) gives the terminal branch. Hence a sentinel call sharing
  its turn with other tool calls always decides the route.
\<close>

theorem should_continue_priority:
  assumes "ms \<noteq> []"
  shows "(\<forall>tcs. tool_calls (last ms) = Some tcs \<and> tcs \<noteq> [] \<longrightarrow>
            should_continue ms =
              Inr (if \<exists>tc \<in> set tcs. tc_name tc = ''deep_research'' then ''deep_research''
                   else if \<exists>tc \<in> set tcs. tc_name tc = ''save_report'' then ''save_confirm''
                   else ''tools''))
       \<and> (tool_calls (last ms) = None \<or> tool_calls (last ms) = Some []
            \<longrightarrow> should_continue ms = Inr ''end'')"
  using assms by (auto simp: should_continue_def Let_def image_iff)

theorem should_continue_priority_witness:
  "should_continue
     [\<lparr>content = ''hi'', tool_calls = None\<rparr>,
      \<lparr>content = '''', tool_calls = Some
         [\<lparr>tc_name = ''calculator'', tc_id = ''a'', tc_args = []\<rparr>,
          \<lparr>tc_name = ''save_report'', tc_id = ''b'', tc_args = []\<rparr>]\<rparr>]
   = Inr ''save_confirm''"
  using should_continue_priority
    [of "[\<lparr>content = ''hi'', tool_calls = None\<rparr>,
      \<lparr>content = '''', tool_calls = Some
         [\<lparr>tc_name = ''calculator'', tc_id = ''a'', tc_args = []\<rparr>,
          \<lparr>tc_name = ''save_report'', tc_id = ''b'', tc_args = []\<rparr>]\<rparr>]"]
  by simp

subsection \<open>Helper facts\<close>

lemma DEPTH_MAP_width: "get_or (DEPTH_MAP d) 5 = depth_width d"
  by (simp add: DEPTH_MAP_def depth_width_def get_or_def)

lemma num_explorers_width:
  "num_explorers st = min (length (get_or (clarified_topics st) []))
                          (depth_width (get_or (depth st) ''standard''))"
  by (simp add: num_explorers_def DEPTH_MAP_width Let_def)

lemma collect_selected_filter:
  "collect_selected ids opts acc =
     acc @ map opt_label (filter (\<lambda>opt. JStr (opt_id opt) \<in> set ids) opts)"
  by (induction opts arbitrary: acc) simp_all

lemma clarify_options_labels: "map opt_label (clarify_options subtopics) = subtopics"
  by (simp add: clarify_options_def enumerate_from0_def HITLOption_def case_prod_unfold
      comp_def map_snd_zip)

lemma selected_labels_options:
  "map opt_label (filter (\<lambda>opt. JStr (opt_id opt) \<in> set ids) (clarify_options subtopics))
   = selected_labels (JList ids) subtopics"
  by (simp add: clarify_options_def selected_labels_def filter_map comp_def HITLOption_def
      case_prod_unfold)

lemma collect_selected_labels:
  "collect_selected ids (clarify_options subtopics) [] = selected_labels (JList ids) subtopics"
  by (simp only: collect_selected_filter selected_labels_options append_Nil)

lemma selected_labels_not_list:
  "(\<forall>ids. v \<noteq> JList ids) \<Longrightarrow> selected_labels v subtopics = []"
  by (cases v) (simp_all add: selected_labels_def)

lemma clarify_node_resume:
  "clarify_node subtopics st (Some v) =
     Done (no_update\<lparr>set_clarified_topics :=
                        Some (if selected_labels v subtopics = [] then subtopics
                              else selected_labels v subtopics),
                      set_status := Some ''clarified''\<rparr>)"
proof (cases "\<exists>ids. v = JList ids")
  case True
  then obtain ids where v: "v = JList ids" by blast
  show ?thesis
    unfolding v clarify_node_def Let_def
    by (simp only: collect_selected_labels option.case json.case)
next
  case False
  then have sl: "selected_labels v subtopics = []"
    by (simp add: selected_labels_not_list)
  from False have "(case v of JList ids \<Rightarrow> ids | _ \<Rightarrow> []) = []"
    by (cases v) simp_all
  then show ?thesis
    by (simp add: clarify_node_def Let_def sl collect_selected_filter)
qed

lemma as_strs_dump: "as_strs (map JStr xs) = Inr xs"
  by (induction xs) simp_all

lemma parse_finding_dump: "parse_finding (dump_finding f) = Inr f"
  by (simp add: dump_finding_def field_str_def field_strs_def dump_strs_def as_strs_dump)

lemma parse_findings_dump: "parse_findings (map dump_finding fs) = Inr fs"
  by (induction fs) (simp_all add: parse_finding_dump)

text \<open>Validating the dump of a report gives the report back.\<close>

lemma ResearchReport_dump: "ResearchReport (dump_report r) = Inr r"
  by (simp add: ResearchReport_def validate_report_def dump_report_def field_str_def
      field_strs_def field_findings_def dump_strs_def as_strs_dump parse_findings_dump)

lemma dump_report_truthy: "report_truthy (Some (dump_report r))"
  by (simp add: report_truthy_def dump_report_def)

lemma review_payload_dump:
  "review_payload (Some (dump_report r)) =
     Inr \<lparr>hitl_type = ''review'', payload_title = ''Review Research Report'',
          payload_message = ''Please review the research report below. You can approve it, edit it, or request a redo.'',
          options = Some review_options, report = Some r\<rparr>"
  by (simp add: review_payload_def dump_report_truthy ResearchReport_dump)

lemma state_report_synthesized:
  "state_report (merge_update st (synthesize_node r st)) = Some (dump_report r)"
  by (simp add: merge_update_def synthesize_node_def no_update_def)

lemma review_node_after_synthesize:
  "review_node (merge_update st (synthesize_node r st)) None =
     Inr (Suspended \<lparr>hitl_type = ''review'', payload_title = ''Review Research Report'',
          payload_message = ''Please review the research report below. You can approve it, edit it, or request a redo.'',
          options = Some review_options, report = Some r\<rparr>)"
  by (simp add: review_node_def state_report_synthesized review_payload_dump)

lemma review_suspended_payload:
  "review_node st None = Inr (Suspended p) \<Longrightarrow> review_payload (state_report st) = Inr p"
  by (auto simp: review_node_def Let_def split: sum.splits)

lemma merge_status:
  "set_status u = Some s \<Longrightarrow> status (merge_update st u) = Some s"
  by (simp add: merge_update_def)

lemma after_review_status:
  "after_review st = (if status st = Some ''redo'' then Some ''orchestrate'' else Some END)"
  by (simp add: after_review_def should_continue_review_def review_edges_def END_def)

lemma review_node_redo:
  assumes "review_payload (state_report st) = Inr pl"
    and "dict_get d ''action'' (JStr ''approve'') = JStr ''redo''"
  shows "review_node st (Some (JDict d)) = Inr (Done (no_update\<lparr>set_status := Some ''redo''\<rparr>))"
  using assms by (simp add: review_node_def Let_def)

lemma review_node_approve:
  assumes "review_payload (state_report st) = Inr pl"
    and "dict_get d ''action'' (JStr ''approve'') = JStr ''approve''"
  shows "review_node st (Some (JDict d)) = Inr (Done (no_update\<lparr>set_status := Some ''approved''\<rparr>))"
  using assms by (simp add: review_node_def Let_def)

lemma review_node_edit_applies:
  assumes "review_payload (state_report st) = Inr pl"
    and "dict_get d ''action'' (JStr ''approve'') = JStr ''edit''"
    and "update_raises st d = None"
  shows "\<exists>u. review_node st (Some (JDict d)) = Inr (Done u) \<and> set_status u = Some ''approved''"
  using assms
  by (auto simp: review_node_def Let_def update_raises_def no_update_def
      split: if_splits sum.splits)

lemma review_node_edit_raises:
  assumes "review_payload (state_report st) = Inr pl"
    and "dict_get d ''action'' (JStr ''approve'') = JStr ''edit''"
    and "update_raises st d = Some e"
  shows "review_node st (Some (JDict d)) = Inl e"
  using assms
  by (auto simp: review_node_def Let_def update_raises_def split: if_splits sum.splits)

lemma edits_ok_applies: "edits_ok d \<Longrightarrow> update_raises st d = None"
  by (cases "map_of d ''edits''"; cases "the (map_of d ''edits'')")
     (simp_all add: edits_ok_def update_raises_def dict_get_def Let_def)

lemma key_eq_JStr: "key_eq a (JStr k) = (a = JStr k)"
  by (cases a) (simp_all add: key_eq_def)

lemma map_of_py_setitem_str:
  "map_of (py_setitem (JStr k) v d) x = (if x = JStr k then Some v else map_of d x)"
  by (induction d) (auto simp: key_eq_JStr)

lemma map_of_dict_update_other:
  "k \<notin> fst ` set e \<Longrightarrow> map_of (dict_update d e) (JStr k) = map_of d (JStr k)"
  unfolding dict_update_def
  by (induction e arbitrary: d) (auto simp: map_of_py_setitem_str)

lemma map_of_dict_update_named:
  "distinct (map fst e) \<Longrightarrow> (k, v) \<in> set e \<Longrightarrow> map_of (dict_update d e) (JStr k) = Some v"
  unfolding dict_update_def
proof (induction e arbitrary: d)
  case Nil
  then show ?case by simp
next
  case (Cons a e)
  show ?case
  proof (cases "(k, v) = a")
    case True
    with Cons.prems have "k \<notin> fst ` set e" by force
    from map_of_dict_update_other [OF this, of "py_setitem (JStr k) v d"] True
    show ?thesis by (auto simp: dict_update_def map_of_py_setitem_str)
  next
    case False
    with Cons.prems have "(k, v) \<in> set e" "distinct (map fst e)" by auto
    from Cons.IH [OF this(2) this(1)] show ?thesis by (simp add: case_prod_unfold)
  qed
qed

lemma dict_update_title:
  "dict_update (dump_report r) [(''title'', JStr x)] = dump_report (r\<lparr>title := x\<rparr>)"
  by (simp add: dict_update_def dump_report_def key_eq_def)

lemma review_node_edit_result:
  assumes "review_payload (state_report st) = Inr pl"
    and "state_report st = Some rep" and "rep \<noteq> []"
    and "dict_get d ''action'' (JStr ''approve'') = JStr ''edit''"
    and "map_of d ''edits'' = Some (JDict e)" and "e \<noteq> []"
  shows "review_node st (Some (JDict d)) =
           Inr (Done (no_update\<lparr>set_report := Some (dict_update rep e),
                                 set_status := Some ''approved''\<rparr>))"
  using assms by (simp add: review_node_def Let_def dict_get_def report_truthy_def)

lemma save_confirm_suspended:
  assumes "save_confirm_node ast resume = Inr (Suspended p)"
  shows "hitl_type p = ''confirm'' \<and> report p \<noteq> None \<and> options p \<noteq> None
         \<and> research_reports ast \<noteq> [] \<and> resume = None"
  using assms
  by (auto simp: save_confirm_node_def Let_def split: if_splits sum.splits option.splits)

lemma py_index_negative:
  "- int (length xs) \<le> k \<Longrightarrow> k < 0 \<Longrightarrow> py_index xs k = Inr (xs ! nat (int (length xs) + k))"
  by (simp add: py_index_def)

text \<open>For a requested index \<open>i \<ge> 0\<close> the step selects the \<open>(i+1)\<close>-th most recent report,
  clamped to the oldest.\<close>

lemma select_report_nonneg:
  assumes "reports \<noteq> []" and "0 \<le> i"
  shows "select_report reports (JInt i) = Inr (rev reports ! min (nat i) (length reports - 1))"
proof -
  define n where "n = length reports"
  define idx where "idx = min i (int n - 1)"
  define k where "k = - (idx + 1)"
  from assms have n: "0 < n" by (simp add: n_def)
  have idx: "0 \<le> idx" "idx < int n" using assms n by (auto simp: idx_def)
  then have neg: "- int (length reports) \<le> k" "k < 0" by (auto simp: k_def n_def)
  have "select_report reports (JInt i) = py_index reports k"
    by (simp add: select_report_def k_def idx_def n_def min_def)
  also have "\<dots> = Inr (reports ! nat (int (length reports) + k))"
    using neg by (rule py_index_negative)
  also have "nat (int (length reports) + k) = n - Suc (nat idx)"
    using idx by (auto simp: k_def n_def)
  also have "reports ! (n - Suc (nat idx)) = rev reports ! nat idx"
    using idx by (simp add: rev_nth n_def)
  also have "nat idx = min (nat i) (length reports - 1)"
    using assms n by (auto simp: idx_def n_def)
  finally show ?thesis .
qed

lemma ResearchReport_ABC:
  "ResearchReport report_A = Inr (sample_report\<lparr>title := ''A''\<rparr>)"
  "ResearchReport report_B = Inr (sample_report\<lparr>title := ''B''\<rparr>)"
  "ResearchReport report_C = Inr (sample_report\<lparr>title := ''C''\<rparr>)"
  by (simp_all add: report_A_def report_B_def report_C_def ResearchReport_dump)

lemmas save_confirm_unfold =
  save_confirm_node_def save_request_def Let_def requested_index_def find_save_call_def
  last_tool_calls_def dict_get_def select_report_def py_index_def ResearchReport_ABC
  confirm_action_is_save_def

text \<open>The specification's examples: with reports A, B, C, index 0 selects C and index 5
  selects A.\<close>

lemma save_confirm_examples:
  "save_confirm_node (save_request (JInt 0)) (Some (JDict [(''action'', JStr ''save'')]))
     = Inr (Done \<lparr>new_messages = [], pending_save = Some report_C\<rparr>)"
  "save_confirm_node (save_request (JInt 5)) (Some (JDict [(''action'', JStr ''save'')]))
     = Inr (Done \<lparr>new_messages = [], pending_save = Some report_A\<rparr>)"
  by (simp_all add: save_confirm_unfold)

text \<open>At the level of the node: for a requested index \<open>i \<ge> 0\<close> the payload carries, and a
  confirmed save stages, the \<open>(i+1)\<close>-th most recent report, the oldest one when \<open>i\<close> is
  beyond the list.\<close>

lemma save_confirm_node_nonneg:
  assumes "research_reports ast \<noteq> []" and "requested_index (messages ast) = JInt i"
    and "0 \<le> i"
    and "ResearchReport (rev (research_reports ast) !
           min (nat i) (length (research_reports ast) - 1)) = Inr obj"
  shows "save_confirm_node ast (Some (JDict [(''action'', JStr ''save'')])) =
           Inr (Done \<lparr>new_messages = [],
                      pending_save = Some (rev (research_reports ast) !
                        min (nat i) (length (research_reports ast) - 1))\<rparr>)"
    and "\<exists>p. save_confirm_node ast None = Inr (Suspended p) \<and> report p = Some obj"
  using assms select_report_nonneg [OF assms(1) assms(3)]
  by (simp_all add: save_confirm_node_def Let_def confirm_action_is_save_def dict_get_def)

lemma py_eval_sum: "py_eval ''2 + 3 * 4'' = Some (Inr ''14'')"
  by code_simp

lemma py_eval_div_zero: "py_eval ''10 / 0'' = Some (Inl ''division by zero'')"
  by code_simp

lemma logging_eval_agrees: "agrees_with_python logging_eval"
  by (simp add: agrees_with_python_def logging_eval_def)

text \<open>A float index above the last index is clamped like an integer; any other float is
  rejected as a list index.\<close>

lemma save_confirm_float_index:
  "save_confirm_node (save_request (JFloat (5, 0))) (Some (JDict [(''action'', JStr ''save'')]))
     = Inr (Done \<lparr>new_messages = [], pending_save = Some report_A\<rparr>)"
  "save_confirm_node (save_request (JFloat (1, - 1))) None = Inl TypeError"
  by (simp_all add: save_confirm_unfold num_less_def scaled_def)

text \<open>Edits given as a list of key/value pairs are merged like an object of edits.\<close>

lemma review_list_edits:
  "review_node synthesized_state
     (Some (JDict [(''action'', JStr ''edit''),
                   (''edits'', JList [JList [JStr ''title'', JStr ''X'']])]))
   = Inr (Done (no_update\<lparr>set_report := Some (dump_report (sample_report\<lparr>title := ''X''\<rparr>)),
                         set_status := Some ''approved''\<rparr>))"
  by (simp add: review_node_def synthesized_state_def state_report_synthesized
      review_payload_dump dump_report_truthy dict_get_def)
     (simp add: dump_report_def key_eq_def)

subsection \<open>Orchestrate\<close>

text \<open>
  C2 (as the code has it). The orchestrate step keeps the first \<open>N\<close> instructions the language
  model returned, \<open>N\<close> = min(number of clarified topics, depth-width of the depth), where a
  missing depth counts as standard and an unknown label has width 5. The number of explorer
  instructions is therefore min(number of instructions returned, \<open>N\<close>): never more than
  \<open>N\<close>, and exactly \<open>N\<close> when the model returned at least \<open>N\<close>.
\<close>

theorem orchestrate_count:
  "explorer_instructions (merge_update st (orchestrate_node llm st)) =
     Some (take (min (length (get_or (clarified_topics st) []))
                     (depth_width (get_or (depth st) ''standard''))) llm)
   \<and> length (get_or (explorer_instructions (merge_update st (orchestrate_node llm st))) []) =
       min (length llm)
         (min (length (get_or (clarified_topics st) []))
              (depth_width (get_or (depth st) ''standard'')))"
proof -
  have "explorer_instructions (merge_update st (orchestrate_node llm st))
        = Some (take (num_explorers st) llm)"
    by (simp add: orchestrate_node_def merge_update_def no_update_def)
  then show ?thesis
    by (simp add: num_explorers_width get_or_def)
qed

text \<open>
  C2 as stated fails: with two clarified topics at depth quick and a language model that
  returned a single instruction, one instruction is produced, not min(2, 3) = 2.
\<close>

theorem orchestrate_count_counterexample:
  "length (get_or (explorer_instructions
       (merge_update two_topics_quick (orchestrate_node [one_instruction] two_topics_quick))) [])
   \<noteq> min (length (get_or (clarified_topics two_topics_quick) []))
         (depth_width (get_or (depth two_topics_quick) ''standard''))"
  by (simp add: orchestrate_node_def merge_update_def no_update_def num_explorers_width
      get_or_def two_topics_quick_def depth_width_def)

subsection \<open>The calculator\<close>

text \<open>
  C3. The whitelist is the digits, \<open>+ - * / ( ) .\<close> and the space. An expression with a
  character outside it yields the invalid-characters error string and leaves the world as
  it was, whatever the evaluator would return and whatever it would do to the world: the
  expression is rejected before any evaluation, not evaluated and then caught. An
  expression that passes the whitelist is evaluated once, and when that raises, the tool
  yields the string "Error evaluating expression: " followed by the exception's text;
  "10 / 0" is such an input. "2 + 3 * 4" yields "14".
\<close>

theorem calculator_whitelist:
  "allowed_chars = set ''0123456789'' \<union>
      {CHR ''+'', CHR ''-'', CHR ''*'', CHR ''/'', CHR ''('', CHR '')'', CHR ''.'', CHR '' ''}
   \<and> ((\<exists>c \<in> set expression. c \<notin> allowed_chars) \<longrightarrow>
        (\<forall>any_eval. calculator any_eval expression w =
           (''Error: Invalid characters in expression. Only basic arithmetic is supported.'', w)))
   \<and> ((\<forall>c \<in> set expression. c \<in> allowed_chars) \<and> str_eval expression w = (Inl msg, w') \<longrightarrow>
        calculator str_eval expression w = (''Error evaluating expression: '' @ msg, w'))
   \<and> ((\<forall>c \<in> set expression. c \<in> allowed_chars) \<and> str_eval expression w = (Inr res, w') \<longrightarrow>
        calculator str_eval expression w = (res, w'))
   \<and> (agrees_with_python str_eval \<longrightarrow>
        fst (calculator str_eval ''10 / 0'' w) = ''Error evaluating expression: division by zero''
        \<and> fst (calculator str_eval ''2 + 3 * 4'' w) = ''14'')"
proof (intro conjI impI allI)
  show "allowed_chars = set ''0123456789'' \<union>
      {CHR ''+'', CHR ''-'', CHR ''*'', CHR ''/'', CHR ''('', CHR '')'', CHR ''.'', CHR '' ''}"
    by (auto simp: allowed_chars_def)
next
  fix any_eval :: "string \<Rightarrow> 'a \<Rightarrow> (string + string) \<times> 'a"
  assume "\<exists>c \<in> set expression. c \<notin> allowed_chars"
  then have "\<not> list_all (\<lambda>c. c \<in> allowed_chars) expression"
    by (simp add: list_all_iff)
  then show "calculator any_eval expression w =
           (''Error: Invalid characters in expression. Only basic arithmetic is supported.'', w)"
    by (simp add: calculator_def)
next
  assume "(\<forall>c \<in> set expression. c \<in> allowed_chars) \<and> str_eval expression w = (Inl msg, w')"
  then show "calculator str_eval expression w = (''Error evaluating expression: '' @ msg, w')"
    by (simp add: calculator_def list_all_iff)
next
  assume "(\<forall>c \<in> set expression. c \<in> allowed_chars) \<and> str_eval expression w = (Inr res, w')"
  then show "calculator str_eval expression w = (res, w')"
    by (simp add: calculator_def list_all_iff)
next
  assume a: "agrees_with_python str_eval"
  from a py_eval_div_zero have "fst (str_eval ''10 / 0'' w) = Inl ''division by zero''"
    unfolding agrees_with_python_def by blast
  then show "fst (calculator str_eval ''10 / 0'' w)
             = ''Error evaluating expression: division by zero''"
    by (cases "str_eval ''10 / 0'' w") (simp add: calculator_def allowed_chars_def)
  from a py_eval_sum have "fst (str_eval ''2 + 3 * 4'' w) = Inr ''14''"
    unfolding agrees_with_python_def by blast
  then show "fst (calculator str_eval ''2 + 3 * 4'' w) = ''14''"
    by (cases "str_eval ''2 + 3 * 4'' w") (simp add: calculator_def allowed_chars_def)
qed

text \<open>
  The witness uses the evaluator that logs every string it evaluates: the rejected input
  leaves the log empty, the accepted ones are logged.
\<close>

theorem calculator_whitelist_witness:
  "(\<exists>c \<in> set (''__import__('' @ [CHR 0x27] @ ''os'' @ [CHR 0x27] @ '')''). c \<notin> allowed_chars)
   \<and> calculator logging_eval (''__import__('' @ [CHR 0x27] @ ''os'' @ [CHR 0x27] @ '')'') []
       = (''Error: Invalid characters in expression. Only basic arithmetic is supported.'', [])
   \<and> set ''10 / 0'' \<subseteq> allowed_chars
   \<and> logging_eval ''10 / 0'' [] = (Inl ''division by zero'', [''10 / 0''])
   \<and> calculator logging_eval ''10 / 0'' []
       = (''Error evaluating expression: division by zero'', [''10 / 0''])
   \<and> logging_eval ''2 + 3 * 4'' [] = (Inr ''14'', [''2 + 3 * 4''])
   \<and> calculator logging_eval ''2 + 3 * 4'' [] = (''14'', [''2 + 3 * 4''])
   \<and> agrees_with_python logging_eval
   \<and> fst (calculator logging_eval ''2 + 3 * 4'' [''earlier'']) = ''14''"
proof -
  let ?e = "''__import__('' @ [CHR 0x27] @ ''os'' @ [CHR 0x27] @ '')''"
  have h1: "\<exists>c \<in> set ?e. c \<notin> allowed_chars"
    by (simp add: allowed_chars_def)
  have h2: "\<forall>c \<in> set ''10 / 0''. c \<in> allowed_chars"
    by (simp add: allowed_chars_def)
  have h2': "set ''10 / 0'' \<subseteq> allowed_chars"
    by (simp add: allowed_chars_def)
  have h3: "logging_eval ''10 / 0'' [] = (Inl ''division by zero'', [''10 / 0''])"
    by (simp add: logging_eval_def py_eval_div_zero)
  have h4: "\<forall>c \<in> set ''2 + 3 * 4''. c \<in> allowed_chars"
    by (simp add: allowed_chars_def)
  have h5: "logging_eval ''2 + 3 * 4'' [] = (Inr ''14'', [''2 + 3 * 4''])"
    by (simp add: logging_eval_def py_eval_sum)
  have h6: "agrees_with_python logging_eval"
    by (rule logging_eval_agrees)
  note t1 = calculator_whitelist [of ?e "[]" logging_eval "''division by zero''" "[]" "''14''"]
  note t2 = calculator_whitelist [of "''10 / 0''" "[]" logging_eval "''division by zero''"
      "[''10 / 0'']" "''14''"]
  note t3 = calculator_whitelist [of "''2 + 3 * 4''" "[]" logging_eval "''division by zero''"
      "[''2 + 3 * 4'']" "''14''"]
  note t4 = calculator_whitelist [of "''2 + 3 * 4''" "[''earlier'']" logging_eval
      "''division by zero''" "[]" "''14''"]
  have c1: "calculator logging_eval ?e [] =
      (''Error: Invalid characters in expression. Only basic arithmetic is supported.'', [])"
    by (rule spec [OF mp [OF t1 [THEN conjunct2, THEN conjunct1] h1]])
  from h2 h3 have p2: "(\<forall>c \<in> set ''10 / 0''. c \<in> allowed_chars)
      \<and> logging_eval ''10 / 0'' [] = (Inl ''division by zero'', [''10 / 0''])"
    by (rule conjI)
  have c2: "calculator logging_eval ''10 / 0'' [] =
      (''Error evaluating expression: '' @ ''division by zero'', [''10 / 0''])"
    by (rule mp [OF t2 [THEN conjunct2, THEN conjunct2, THEN conjunct1] p2])
  from h4 h5 have p3: "(\<forall>c \<in> set ''2 + 3 * 4''. c \<in> allowed_chars)
      \<and> logging_eval ''2 + 3 * 4'' [] = (Inr ''14'', [''2 + 3 * 4''])"
    by (rule conjI)
  have c3: "calculator logging_eval ''2 + 3 * 4'' [] = (''14'', [''2 + 3 * 4''])"
    by (rule mp [OF t3 [THEN conjunct2, THEN conjunct2, THEN conjunct2, THEN conjunct1] p3])
  have c4: "fst (calculator logging_eval ''2 + 3 * 4'' [''earlier'']) = ''14''"
    by (rule mp [OF t4 [THEN conjunct2, THEN conjunct2, THEN conjunct2, THEN conjunct2] h6,
          THEN conjunct2])
  from c2 have c2': "calculator logging_eval ''10 / 0'' []
      = (''Error evaluating expression: division by zero'', [''10 / 0''])"
    by simp
  from h1 c1 h2' h3 c2' h5 c3 h6 c4 show ?thesis
    by (intro conjI)
qed

subsection \<open>Clarify\<close>

text \<open>
  C4. Resuming the clarify suspension with the empty list makes the clarified topics the
  full list of suggested sub-topics.
\<close>

theorem clarify_empty_selection:
  "\<exists>u. clarify_node subtopics st (Some (JList [])) = Done u
       \<and> set_clarified_topics u = Some subtopics
       \<and> clarified_topics (merge_update st u) = Some subtopics"
  by (simp add: clarify_node_def Let_def collect_selected_filter merge_update_def no_update_def)

text \<open>
  C10. For every resume value \<open>v\<close> the clarified topics are the labels of the suggested
  options whose ids appear in \<open>v\<close> when \<open>v\<close> is a list (no label when \<open>v\<close> is no list), and
  the full list of suggested sub-topics when there is no such label. An element of \<open>v\<close>
  that is the id of no suggested option changes nothing.
\<close>

theorem clarify_selection:
  "(\<exists>u. clarify_node subtopics st (Some v) = Done u
       \<and> set_clarified_topics u =
           Some (if selected_labels v subtopics = [] then subtopics
                 else selected_labels v subtopics))
   \<and> ((\<forall>ids. v \<noteq> JList ids) \<longrightarrow>
         (\<exists>u. clarify_node subtopics st (Some v) = Done u
              \<and> set_clarified_topics u = Some subtopics))
   \<and> (\<forall>x ids. (\<forall>opt \<in> set (clarify_options subtopics). x \<noteq> JStr (opt_id opt)) \<longrightarrow>
         clarify_node subtopics st (Some (JList (x # ids)))
         = clarify_node subtopics st (Some (JList ids)))"
proof (intro conjI allI impI)
  show "\<exists>u. clarify_node subtopics st (Some v) = Done u
       \<and> set_clarified_topics u =
           Some (if selected_labels v subtopics = [] then subtopics
                 else selected_labels v subtopics)"
    by (simp add: clarify_node_resume no_update_def)
next
  assume "\<forall>ids. v \<noteq> JList ids"
  then have "selected_labels v subtopics = []"
    by (rule selected_labels_not_list)
  then show "\<exists>u. clarify_node subtopics st (Some v) = Done u
              \<and> set_clarified_topics u = Some subtopics"
    by (simp add: clarify_node_resume no_update_def)
next
  fix x ids
  assume "\<forall>opt \<in> set (clarify_options subtopics). x \<noteq> JStr (opt_id opt)"
  then have "filter (\<lambda>opt. JStr (opt_id opt) \<in> set (x # ids)) (clarify_options subtopics)
           = filter (\<lambda>opt. JStr (opt_id opt) \<in> set ids) (clarify_options subtopics)"
    by (intro filter_cong) auto
  then show "clarify_node subtopics st (Some (JList (x # ids)))
         = clarify_node subtopics st (Some (JList ids))"
    by (simp add: clarify_node_def Let_def collect_selected_filter)
qed

theorem clarify_selection_witness:
  "JStr ''bogus'' \<notin> set (map (\<lambda>opt. JStr (opt_id opt)) (clarify_options [''a'', ''b'']))
   \<and> clarify_node [''a'', ''b''] fresh_state (Some (JList [JStr ''bogus'', JStr ''topic_1'']))
     = clarify_node [''a'', ''b''] fresh_state (Some (JList [JStr ''topic_1'']))
   \<and> (\<forall>ids. JStr ''topic_1'' \<noteq> JList ids)
   \<and> (\<exists>u. clarify_node [''a'', ''b''] fresh_state (Some (JStr ''topic_1'')) = Done u
         \<and> set_clarified_topics u = Some [''a'', ''b''])"
proof -
  let ?subs = "[''a'', ''b'']"
  have h: "\<forall>opt \<in> set (clarify_options ?subs). JStr ''bogus'' \<noteq> JStr (opt_id opt)"
    by (simp add: clarify_options_def enumerate_from0_def HITLOption_def upt_rec)
  then have h': "JStr ''bogus'' \<notin> set (map (\<lambda>opt. JStr (opt_id opt)) (clarify_options ?subs))"
    by (simp add: image_iff)
  have n: "\<forall>ids. JStr ''topic_1'' \<noteq> JList ids"
    by simp
  note t = clarify_selection [of ?subs fresh_state "JStr ''topic_1''"]
  from t h have c1: "clarify_node ?subs fresh_state (Some (JList [JStr ''bogus'', JStr ''topic_1'']))
     = clarify_node ?subs fresh_state (Some (JList [JStr ''topic_1'']))"
    by (elim conjE) (erule allE [of _ "JStr ''bogus''"], erule allE [of _ "[JStr ''topic_1'']"],
        erule (1) mp)
  from t n have c2: "\<exists>u. clarify_node ?subs fresh_state (Some (JStr ''topic_1'')) = Done u
         \<and> set_clarified_topics u = Some ?subs"
    by (elim conjE) (erule (1) mp)
  from h' c1 n c2 show ?thesis
    by (intro conjI)
qed

subsection \<open>Save confirmation\<close>

text \<open>
  C5 (where the code departs from it). With the reports A, B, C and the requested index -4
  the step raises IndexError instead of clamping to the oldest report, and with the
  requested index -1 it selects the oldest report A. The lower bound is never checked:
  \<open>min\<close> only clamps from above. For every index \<open>i \<ge> 0\<close> the selection is the one the
  claim describes (\<open>select_report_nonneg\<close>, \<open>save_confirm_node_nonneg\<close>,
  \<open>save_confirm_examples\<close>).
\<close>

theorem save_confirm_negative_index:
  "save_confirm_node (save_request (JInt (- 4))) None = Inl IndexError
   \<and> save_confirm_node (save_request (JInt (- 1))) (Some (JDict [(''action'', JStr ''save'')]))
     = Inr (Done \<lparr>new_messages = [], pending_save = Some report_A\<rparr>)"
  by (simp add: save_confirm_unfold)

subsection \<open>Review\<close>

text \<open>
  C6 (as the code has it). At a review suspension, a response whose action is redo gives the
  status redo, and the router after review then leads to orchestrate (not to clarify). A
  response whose action is approve gives the status approved and the router leads to the
  end of the sub-pipeline; so does a response whose action is edit, provided that applying
  its edits to the report does not raise, which is so whenever the edits are absent or a
  JSON object. When applying the edits raises, the step raises that exception and sets no
  status.
\<close>

theorem review_routing:
  assumes susp: "review_node st None = Inr (Suspended p)"
  shows "(dict_get d ''action'' (JStr ''approve'') = JStr ''redo'' \<longrightarrow>
            (\<exists>u. review_node st (Some (JDict d)) = Inr (Done u)
                 \<and> status (merge_update st u) = Some ''redo''
                 \<and> after_review (merge_update st u) = Some ''orchestrate''
                 \<and> after_review (merge_update st u) \<noteq> Some ''clarify''))
       \<and> (dict_get d ''action'' (JStr ''approve'') = JStr ''approve''
            \<or> dict_get d ''action'' (JStr ''approve'') = JStr ''edit''
              \<and> update_raises st d = None \<longrightarrow>
            (\<exists>u. review_node st (Some (JDict d)) = Inr (Done u)
                 \<and> status (merge_update st u) = Some ''approved''
                 \<and> after_review (merge_update st u) = Some END))
       \<and> (dict_get d ''action'' (JStr ''approve'') = JStr ''edit''
            \<and> update_raises st d = Some e \<longrightarrow>
            review_node st (Some (JDict d)) = Inl e)
       \<and> (edits_ok d \<longrightarrow> update_raises st d = None)"
proof -
  from susp have pl: "review_payload (state_report st) = Inr p"
    by (rule review_suspended_payload)
  have redo: "\<exists>u. review_node st (Some (JDict d)) = Inr (Done u)
                 \<and> status (merge_update st u) = Some ''redo''
                 \<and> after_review (merge_update st u) = Some ''orchestrate''
                 \<and> after_review (merge_update st u) \<noteq> Some ''clarify''"
    if "dict_get d ''action'' (JStr ''approve'') = JStr ''redo''"
    using review_node_redo [OF pl that]
    by (simp add: after_review_status merge_status no_update_def)
  have appr: "\<exists>u. review_node st (Some (JDict d)) = Inr (Done u)
                 \<and> status (merge_update st u) = Some ''approved''
                 \<and> after_review (merge_update st u) = Some END"
    if a: "dict_get d ''action'' (JStr ''approve'') = JStr ''approve''
            \<or> dict_get d ''action'' (JStr ''approve'') = JStr ''edit''
              \<and> update_raises st d = None"
  proof -
    from a have "\<exists>u. review_node st (Some (JDict d)) = Inr (Done u)
                     \<and> set_status u = Some ''approved''"
    proof
      assume "dict_get d ''action'' (JStr ''approve'') = JStr ''approve''"
      from review_node_approve [OF pl this] show ?thesis by (simp add: no_update_def)
    next
      assume "dict_get d ''action'' (JStr ''approve'') = JStr ''edit''
              \<and> update_raises st d = None"
      then show ?thesis using review_node_edit_applies [OF pl] by blast
    qed
    then obtain u where u: "review_node st (Some (JDict d)) = Inr (Done u)"
      and su: "set_status u = Some ''approved''" by blast
    from merge_status [OF su, of st] u show ?thesis
      by (simp add: after_review_status)
  qed
  have raises: "review_node st (Some (JDict d)) = Inl e"
    if "dict_get d ''action'' (JStr ''approve'') = JStr ''edit'' \<and> update_raises st d = Some e"
    using that review_node_edit_raises [OF pl] by blast
  have ok: "update_raises st d = None" if "edits_ok d"
    using that by (rule edits_ok_applies)
  from redo appr raises ok show ?thesis by blast
qed

text \<open>
  C6 as stated fails: at the review suspension over a synthesized report, the response
  \<open>{action: "edit", edits: "ab"}\<close> makes \<open>report.update\<close> raise ValueError, so the step
  sets no status at all.
\<close>

theorem review_routing_counterexample:
  "(\<exists>p. review_node synthesized_state None = Inr (Suspended p))
   \<and> dict_get [(''action'', JStr ''edit''), (''edits'', JStr ''ab'')] ''action'' (JStr ''approve'')
       = JStr ''edit''
   \<and> review_node synthesized_state
         (Some (JDict [(''action'', JStr ''edit''), (''edits'', JStr ''ab'')]))
       = Inl ValueError"
  by (simp add: review_node_def synthesized_state_def state_report_synthesized
      review_payload_dump dump_report_truthy dict_get_def)

theorem review_routing_witness:
  "(\<exists>p. review_node synthesized_state None = Inr (Suspended p))
   \<and> (\<exists>u. review_node synthesized_state (Some (JDict [(''action'', JStr ''redo'')])) = Inr (Done u)
         \<and> after_review (merge_update synthesized_state u) = Some ''orchestrate'')
   \<and> edits_ok [(''action'', JStr ''edit''), (''edits'', JDict [(''title'', JStr ''X'')])]
   \<and> (\<exists>u. review_node synthesized_state
            (Some (JDict [(''action'', JStr ''edit''), (''edits'', JDict [(''title'', JStr ''X'')])]))
          = Inr (Done u)
         \<and> after_review (merge_update synthesized_state u) = Some END)
   \<and> update_raises synthesized_state [(''action'', JStr ''edit''), (''edits'', JInt 5)]
       = Some TypeError
   \<and> review_node synthesized_state
         (Some (JDict [(''action'', JStr ''edit''), (''edits'', JInt 5)])) = Inl TypeError"
proof -
  let ?redo = "[(''action'', JStr ''redo'')]"
  let ?edit = "[(''action'', JStr ''edit''), (''edits'', JDict [(''title'', JStr ''X'')])]"
  let ?bad = "[(''action'', JStr ''edit''), (''edits'', JInt 5)]"
  obtain p where h: "review_node synthesized_state None = Inr (Suspended p)"
    by (simp add: synthesized_state_def review_node_after_synthesize)
  have a1: "dict_get ?redo ''action'' (JStr ''approve'') = JStr ''redo''"
    by (simp add: dict_get_def)
  have a2: "dict_get ?edit ''action'' (JStr ''approve'') = JStr ''edit''"
    by (simp add: dict_get_def)
  have a3: "edits_ok ?edit"
    by (simp add: edits_ok_def)
  have a4: "dict_get ?bad ''action'' (JStr ''approve'') = JStr ''edit''"
    by (simp add: dict_get_def)
  have a5: "update_raises synthesized_state ?bad = Some TypeError"
    by (simp add: update_raises_def synthesized_state_def state_report_synthesized
        dump_report_truthy dict_get_def)
  note t1 = review_routing [OF h, of ?redo TypeError]
  note t2 = review_routing [OF h, of ?edit TypeError]
  note t3 = review_routing [OF h, of ?bad TypeError]
  from t1 a1 have c1: "\<exists>u. review_node synthesized_state (Some (JDict ?redo)) = Inr (Done u)
         \<and> after_review (merge_update synthesized_state u) = Some ''orchestrate''"
    by blast
  from t2 a3 have n: "update_raises synthesized_state ?edit = None"
    by blast
  from t2 a2 n have c2: "\<exists>u. review_node synthesized_state (Some (JDict ?edit)) = Inr (Done u)
         \<and> after_review (merge_update synthesized_state u) = Some END"
    by blast
  from t3 a4 a5 have c3: "review_node synthesized_state (Some (JDict ?bad)) = Inl TypeError"
    by blast
  from h have c0: "\<exists>p. review_node synthesized_state None = Inr (Suspended p)"
    by blast
  from c0 c1 a3 c2 a5 c3 show ?thesis
    by (intro conjI)
qed

text \<open>
  C7. At a review suspension over a report, a response with action edit and an object of
  edits leaves the state with the report merged with the edits: every field not named in
  the edits keeps its value, every field named in them takes the edit's value. For a
  report as synthesize dumps it and the edits \<open>{title: x}\<close> the result is the dump of the
  same report with title \<open>x\<close>.
\<close>

theorem review_edit_merge:
  assumes susp: "review_node st None = Inr (Suspended p)"
    and rep: "state_report st = Some rep" "rep \<noteq> []"
    and act: "dict_get d ''action'' (JStr ''approve'') = JStr ''edit''"
    and ed: "map_of d ''edits'' = Some (JDict e)"
  shows "\<exists>u rep'. review_node st (Some (JDict d)) = Inr (Done u)
           \<and> state_report (merge_update st u) = Some rep'
           \<and> (\<forall>k. k \<notin> fst ` set e \<longrightarrow> map_of rep' (JStr k) = map_of rep (JStr k))
           \<and> (\<forall>k v. distinct (map fst e) \<and> (k, v) \<in> set e \<longrightarrow>
                  map_of rep' (JStr k) = Some v)
           \<and> (\<forall>r x. rep = dump_report r \<and> e = [(''title'', JStr x)] \<longrightarrow>
                  rep' = dump_report (r\<lparr>title := x\<rparr>))"
proof (cases "e = []")
  case True
  from susp have pl: "review_payload (state_report st) = Inr p"
    by (rule review_suspended_payload)
  with rep act ed True
  have "review_node st (Some (JDict d)) = Inr (Done (no_update\<lparr>set_status := Some ''approved''\<rparr>))"
    by (simp add: review_node_def Let_def dict_get_def)
  moreover have "state_report (merge_update st (no_update\<lparr>set_status := Some ''approved''\<rparr>)) = Some rep"
    by (simp add: merge_update_def no_update_def rep)
  ultimately show ?thesis using True by auto
next
  case False
  from susp have pl: "review_payload (state_report st) = Inr p"
    by (rule review_suspended_payload)
  from review_node_edit_result [OF pl rep act ed False]
  have "review_node st (Some (JDict d)) =
           Inr (Done (no_update\<lparr>set_report := Some (dict_update rep e),
                                 set_status := Some ''approved''\<rparr>))" .
  moreover have "state_report (merge_update st (no_update\<lparr>set_report := Some (dict_update rep e),
                                 set_status := Some ''approved''\<rparr>)) = Some (dict_update rep e)"
    by (simp add: merge_update_def no_update_def)
  moreover have "\<forall>k. k \<notin> fst ` set e \<longrightarrow>
                   map_of (dict_update rep e) (JStr k) = map_of rep (JStr k)"
    by (simp add: map_of_dict_update_other)
  moreover have "\<forall>k v. distinct (map fst e) \<and> (k, v) \<in> set e \<longrightarrow>
                   map_of (dict_update rep e) (JStr k) = Some v"
    by (simp add: map_of_dict_update_named)
  moreover have "\<forall>r x. rep = dump_report r \<and> e = [(''title'', JStr x)] \<longrightarrow>
                   dict_update rep e = dump_report (r\<lparr>title := x\<rparr>)"
    by (simp add: dict_update_title)
  ultimately show ?thesis by blast
qed

theorem review_edit_merge_witness:
  "\<exists>u. review_node synthesized_state
          (Some (JDict [(''action'', JStr ''edit''), (''edits'', JDict [(''title'', JStr ''X'')])]))
        = Inr (Done u)
      \<and> state_report (merge_update synthesized_state u)
        = Some (dump_report (sample_report\<lparr>title := ''X''\<rparr>))"
proof -
  let ?d = "[(''action'', JStr ''edit''), (''edits'', JDict [(''title'', JStr ''X'')])]"
  obtain p where h: "review_node synthesized_state None = Inr (Suspended p)"
    by (simp add: synthesized_state_def review_node_after_synthesize)
  have r: "state_report synthesized_state = Some (dump_report sample_report)"
    by (simp add: synthesized_state_def state_report_synthesized)
  have ne: "dump_report sample_report \<noteq> []"
    by (simp add: dump_report_def)
  have a: "dict_get ?d ''action'' (JStr ''approve'') = JStr ''edit''"
    by (simp add: dict_get_def)
  have e: "map_of ?d ''edits'' = Some (JDict [(''title'', JStr ''X'')])"
    by simp
  from review_edit_merge [OF h r ne a e] obtain u rep' where
    u: "review_node synthesized_state (Some (JDict ?d)) = Inr (Done u)"
    and s: "state_report (merge_update synthesized_state u) = Some rep'"
    and t: "\<forall>r x. dump_report sample_report = dump_report r
              \<and> [(''title'', JStr ''X'')] = [(''title'', JStr x)] \<longrightarrow>
              rep' = dump_report (r\<lparr>title := x\<rparr>)"
    by (elim exE conjE) (rule that)
  from t have "rep' = dump_report (sample_report\<lparr>title := ''X''\<rparr>)"
    by (elim allE [of _ sample_report] allE [of _ "''X''"]) simp
  with u s show ?thesis by simp
qed

subsection \<open>Explorer\<close>

text \<open>
  C8. When the web search of an explorer raises an exception, the explorer returns exactly
  one result entry, titled with the query, whose content is "Search error: " followed by
  the exception's text; nothing is raised.
\<close>

theorem explorer_search_failure:
  assumes "search (get_or (ex_query st) []) = Inl msg"
  shows "explorer_node search st =
           [SearchResult [] (get_or (ex_query st) []) (''Search error: '' @ msg) (0, 0)]
         \<and> length (explorer_node search st) = 1"
  using assms by (simp add: explorer_node_def Let_def)

theorem explorer_search_failure_witness:
  "explorer_node (\<lambda>q. Inl ''timed out'') \<lparr>ex_query = Some ''llm agents'', ex_search_focus = None\<rparr>
   = [[(''url'', JStr []), (''title'', JStr ''llm agents''),
       (''content'', JStr ''Search error: timed out''), (''score'', JFloat (0, 0))]]"
  using explorer_search_failure [of "\<lambda>q. Inl ''timed out''"
      "\<lparr>ex_query = Some ''llm agents'', ex_search_focus = None\<rparr>" "''timed out''"]
  by (simp add: SearchResult_def get_or_def)

subsection \<open>Payloads\<close>

text \<open>
  C9. The payloads the three suspension points build satisfy the validation invariant: the
  clarify payload is a checkbox payload with an option list; the review payload built from
  the state that synthesize leaves is a review payload carrying the synthesized report; and
  whenever the save-confirmation step suspends, its payload is a confirm payload carrying a
  report, which happens only when there is at least one report.
\<close>

theorem payloads_valid:
  "(\<exists>p. clarify_node subtopics st None = Suspended p \<and> payload_valid p
        \<and> hitl_type p = ''checkbox'' \<and> options p \<noteq> None)
   \<and> (\<exists>p. review_node (merge_update st (synthesize_node r st)) None = Inr (Suspended p)
        \<and> payload_valid p \<and> hitl_type p = ''review'' \<and> report p = Some r)
   \<and> (\<forall>p. save_confirm_node ast resume = Inr (Suspended p) \<longrightarrow>
          payload_valid p \<and> hitl_type p = ''confirm'' \<and> report p \<noteq> None
          \<and> research_reports ast \<noteq> [])"
proof (intro conjI allI impI)
  show "\<exists>p. clarify_node subtopics st None = Suspended p \<and> payload_valid p
        \<and> hitl_type p = ''checkbox'' \<and> options p \<noteq> None"
    by (simp add: clarify_node_def Let_def clarify_payload_def payload_valid_def)
  show "\<exists>p. review_node (merge_update st (synthesize_node r st)) None = Inr (Suspended p)
        \<and> payload_valid p \<and> hitl_type p = ''review'' \<and> report p = Some r"
    by (simp add: review_node_after_synthesize payload_valid_def)
next
  fix p
  assume "save_confirm_node ast resume = Inr (Suspended p)"
  from save_confirm_suspended [OF this]
  show "payload_valid p" "hitl_type p = ''confirm''" "report p \<noteq> None"
    "research_reports ast \<noteq> []"
    by (simp_all add: payload_valid_def)
qed

theorem payloads_valid_witness:
  "\<exists>p. save_confirm_node (save_request (JInt 0)) None = Inr (Suspended p)
      \<and> hitl_type p = ''confirm'' \<and> report p \<noteq> None \<and> payload_valid p"
proof -
  obtain p where h: "save_confirm_node (save_request (JInt 0)) None = Inr (Suspended p)"
    by (simp add: save_confirm_unfold)
  from h payloads_valid [of "[]" fresh_state sample_report "save_request (JInt 0)" None]
  show ?thesis by blast
qed

end
